theory Spec2Isabelle
  imports Complex_Main
begin

section \<open>JavaScript values used by the component\<close>

text \<open>
  The component \<^verbatim>\<open>NetworkGraphVisualizer\<close> keeps two vis-data collections
  (\<^verbatim>\<open>nodes\<close>, \<^verbatim>\<open>edges\<close>), two form states (\<^verbatim>\<open>newNode\<close>, \<^verbatim>\<open>newEdge\<close>) and
  the last query result (\<^verbatim>\<open>shortestPath\<close>).  Its handlers and the function
  \<^verbatim>\<open>dijkstra\<close> are embedded below as HOL functions.

  Modelling conventions.
  \<^item> A JavaScript number is a rational, \<^verbatim>\<open>Infinity\<close>, \<^verbatim>\<open>-Infinity\<close> or \<^verbatim>\<open>NaN\<close>.
    Arithmetic on finite numbers is exact: the rounding of IEEE doubles is not
    modelled, and \<^verbatim>\<open>-0\<close> is \<^verbatim>\<open>0\<close>.
  \<^item> The objects \<^verbatim>\<open>distances\<close> and \<^verbatim>\<open>previous\<close> are maps from property names
    to values; reading a missing property gives \<^verbatim>\<open>undefined\<close>.  Property names
    inherited from \<^verbatim>\<open>Object.prototype\<close> (all of which contain lower-case
    letters, so none is an upper-cased label) are not modelled.
  \<^item> A vis-data \<^verbatim>\<open>DataSet\<close> is the list of its items in insertion order;
    \<^verbatim>\<open>get(id)\<close> finds the item with that id, \<^verbatim>\<open>get()\<close> returns all items,
    \<^verbatim>\<open>add\<close> appends, \<^verbatim>\<open>clear\<close> empties.  The ids that the data set invents
    for edges are left out.
  \<^item> Strings are lists of 8-bit characters; \<^verbatim>\<open>toUpperCase\<close> is modelled on the
    ASCII letters.
\<close>

datatype number = Num rat | Infinity | NegInfinity | NaN

fun js_add :: "number \<Rightarrow> number \<Rightarrow> number" where
  "js_add (Num a) (Num b) = Num (a + b)"
| "js_add NaN _ = NaN"
| "js_add _ NaN = NaN"
| "js_add Infinity NegInfinity = NaN"
| "js_add NegInfinity Infinity = NaN"
| "js_add Infinity _ = Infinity"
| "js_add _ Infinity = Infinity"
| "js_add NegInfinity _ = NegInfinity"
| "js_add _ NegInfinity = NegInfinity"

fun js_neg :: "number \<Rightarrow> number" where
  "js_neg (Num a) = Num (- a)"
| "js_neg Infinity = NegInfinity"
| "js_neg NegInfinity = Infinity"
| "js_neg NaN = NaN"

definition js_sub :: "number \<Rightarrow> number \<Rightarrow> number" where
  "js_sub a b = js_add a (js_neg b)"

fun js_lt :: "number \<Rightarrow> number \<Rightarrow> bool" where
  "js_lt (Num a) (Num b) = (a < b)"
| "js_lt NaN _ = False"
| "js_lt _ NaN = False"
| "js_lt Infinity _ = False"
| "js_lt _ NegInfinity = False"
| "js_lt NegInfinity _ = True"
| "js_lt _ Infinity = True"

text \<open>\<^verbatim>\<open>ToNumber\<close> applied to the result of a property read: \<^verbatim>\<open>undefined\<close>
  (here \<open>None\<close>) becomes \<^verbatim>\<open>NaN\<close>.\<close>

definition toNumber :: "number option \<Rightarrow> number" where
  "toNumber v = (case v of None \<Rightarrow> NaN | Some n \<Rightarrow> n)"

text \<open>The values a variable such as \<^verbatim>\<open>current\<close> holds: a string, \<^verbatim>\<open>null\<close> or
  \<^verbatim>\<open>undefined\<close>.  Only a non-empty string is truthy.\<close>

datatype jsval = Undefined | Null | Str string

definition prop_get :: "(string \<rightharpoonup> jsval) \<Rightarrow> string \<Rightarrow> jsval" where
  "prop_get obj k = (case obj k of None \<Rightarrow> Undefined | Some v \<Rightarrow> v)"

text \<open>\<^verbatim>\<open>Array.prototype.sort\<close> with a comparison function is stable: \<open>a\<close> is
  moved behind \<open>b\<close> only when the comparison of \<open>a\<close> with \<open>b\<close> is positive.
  The stable order is computed here by insertion.\<close>

fun insert_sorted :: "('a \<Rightarrow> 'a \<Rightarrow> number) \<Rightarrow> 'a \<Rightarrow> 'a list \<Rightarrow> 'a list" where
  "insert_sorted cmp x [] = [x]"
| "insert_sorted cmp x (y # ys) =
     (if js_lt (Num 0) (cmp x y) then y # insert_sorted cmp x ys else x # y # ys)"

definition js_sort :: "('a \<Rightarrow> 'a \<Rightarrow> number) \<Rightarrow> 'a list \<Rightarrow> 'a list" where
  "js_sort cmp xs = foldr (insert_sorted cmp) xs []"

subsection \<open>\<^verbatim>\<open>toUpperCase\<close> and \<^verbatim>\<open>parseFloat\<close>\<close>

definition toUpperCase_char :: "char \<Rightarrow> char" where
  "toUpperCase_char c =
     (case map_of (zip ''abcdefghijklmnopqrstuvwxyz'' ''ABCDEFGHIJKLMNOPQRSTUVWXYZ'') c of
        None \<Rightarrow> c
      | Some u \<Rightarrow> u)"

definition toUpperCase :: "string \<Rightarrow> string" where
  "toUpperCase s = map toUpperCase_char s"

definition isDigit :: "char \<Rightarrow> bool" where
  "isDigit c = (c \<in> set ''0123456789'')"

definition isWhiteSpace :: "char \<Rightarrow> bool" where
  "isWhiteSpace c = (c \<in> set [CHR '' '', CHR 0x09, CHR 0x0A, CHR 0x0B, CHR 0x0C, CHR 0x0D])"

definition digitValue :: "char \<Rightarrow> nat" where
  "digitValue c = length (takeWhile (\<lambda>d. d \<noteq> c) ''0123456789'')"

definition digitsValue :: "string \<Rightarrow> nat" where
  "digitsValue ds = foldl (\<lambda>n c. 10 * n + digitValue c) 0 ds"

definition pow10 :: "int \<Rightarrow> rat" where
  "pow10 e = (if 0 \<le> e then 10 ^ nat e else 1 / 10 ^ nat (- e))"

text \<open>The exponent part \<^verbatim>\<open>e\<close>/\<^verbatim>\<open>E\<close>, an optional sign and at least one digit;
  anything else after the mantissa is ignored.\<close>

definition exponentPart :: "string \<Rightarrow> int" where
  "exponentPart s =
     (case s of
        [] \<Rightarrow> 0
      | c # r \<Rightarrow>
          if c = CHR ''e'' \<or> c = CHR ''E'' then
            (case r of
               [] \<Rightarrow> 0
             | d # r' \<Rightarrow>
                 if d = CHR ''-'' then
                   (if takeWhile isDigit r' = [] then 0
                    else - int (digitsValue (takeWhile isDigit r')))
                 else if d = CHR ''+'' then int (digitsValue (takeWhile isDigit r'))
                 else int (digitsValue (takeWhile isDigit r)))
          else 0)"

text \<open>\<^verbatim>\<open>parseFloat\<close> on a string: leading white space is skipped and the longest
  prefix that is a decimal literal is read; when there is none the result is
  \<^verbatim>\<open>NaN\<close>.\<close>

definition parseFloat :: "string \<Rightarrow> number" where
  "parseFloat s =
     (let t = dropWhile isWhiteSpace s;
          neg = (t \<noteq> [] \<and> hd t = CHR ''-'');
          u = (if t \<noteq> [] \<and> (hd t = CHR ''-'' \<or> hd t = CHR ''+'') then tl t else t)
      in if take 8 u = ''Infinity'' then (if neg then NegInfinity else Infinity)
         else
           let ip = takeWhile isDigit u;
               r1 = dropWhile isDigit u;
               dot = (r1 \<noteq> [] \<and> hd r1 = CHR ''.'');
               fp = (if dot then takeWhile isDigit (tl r1) else []);
               r2 = (if dot then dropWhile isDigit (tl r1) else r1)
           in if ip = [] \<and> fp = [] then NaN
              else
                let m = of_nat (digitsValue (ip @ fp)) * pow10 (exponentPart r2 - int (length fp))
                in Num (if neg then - m else m))"

section \<open>The graph and the component state\<close>

record node =
  node_id :: string
  node_label :: string

record edge =
  edge_from :: string
  edge_to :: string
  edge_label :: string
  edge_weight :: number

record graph =
  nodes :: "node list"
  edges :: "edge list"

text \<open>The \<^verbatim>\<open>weight\<close> field of \<^verbatim>\<open>newEdge\<close> is the number \<^verbatim>\<open>1\<close> initially and after
  every successful \<^verbatim>\<open>addEdge\<close>; once the weight input has been edited it is the
  text of that input.\<close>

datatype weight_field = One | Text string

record new_edge =
  from_field :: string
  to_field :: string
  weight_field :: weight_field

record result =
  path :: "string list"
  distance :: "number option"

text \<open>The state \<^verbatim>\<open>shortestPath\<close>: the empty array, or the object returned by
  \<^verbatim>\<open>dijkstra\<close>.\<close>

datatype shortest = EmptyArray | Result result

record state = graph +
  newNode :: string
  newEdge :: new_edge
  shortestPath :: shortest

definition initial :: state where
  "initial = \<lparr>nodes = [], edges = [], newNode = [],
     newEdge = \<lparr>from_field = [], to_field = [], weight_field = One\<rparr>,
     shortestPath = EmptyArray\<rparr>"

section \<open>Dijkstra's algorithm (source lines 19 to 61)\<close>

record dstate =
  distances :: "string \<rightharpoonup> number"
  previous :: "string \<rightharpoonup> jsval"
  pq :: "(string \<times> number) list"

definition init_node :: "node \<Rightarrow> dstate \<Rightarrow> dstate" where
  "init_node n st =
     st\<lparr>distances := (distances st)(node_id n \<mapsto> Infinity),
        previous := (previous st)(node_id n \<mapsto> Null)\<rparr>"

definition initialize :: "graph \<Rightarrow> string \<Rightarrow> dstate" where
  "initialize graph startNode =
     (let st = fold init_node (nodes graph)
                 \<lparr>distances = Map.empty, previous = Map.empty, pq = []\<rparr>
      in st\<lparr>distances := (distances st)(startNode \<mapsto> Num 0),
            pq := pq st @ [(startNode, Num 0)]\<rparr>)"

text \<open>The body of \<^verbatim>\<open>graph.edges.forEach\<close> for the extracted \<open>node\<close>.\<close>

definition relax :: "string \<Rightarrow> edge \<Rightarrow> dstate \<Rightarrow> dstate" where
  "relax node e st =
     (if edge_from e = node \<or> edge_to e = node then
        let neighbor = (if edge_from e = node then edge_to e else edge_from e);
            d = js_add (toNumber (distances st node)) (edge_weight e)
        in if js_lt d (toNumber (distances st neighbor)) then
             st\<lparr>distances := (distances st)(neighbor \<mapsto> d),
                previous := (previous st)(neighbor \<mapsto> Str node),
                pq := pq st @ [(neighbor, d)]\<rparr>
           else st
      else st)"

definition compare_distance :: "string \<times> number \<Rightarrow> string \<times> number \<Rightarrow> number" where
  "compare_distance a b = js_sub (snd a) (snd b)"

text \<open>The \<^verbatim>\<open>while (pq.length)\<close> loop.  It need not terminate (a negative weight
  lets two neighbours lower each other for ever), so it returns an option.\<close>

partial_function (option) main_loop :: "graph \<Rightarrow> string \<Rightarrow> dstate \<Rightarrow> dstate option" where
  "main_loop graph endNode st =
     (if pq st = [] then Some st
      else
        let sorted = js_sort compare_distance (pq st);
            node = fst (hd sorted);
            st1 = st\<lparr>pq := tl sorted\<rparr>
        in if node = endNode then Some st1
           else main_loop graph endNode (fold (relax node) (edges graph) st1))"

declare main_loop.simps [code]

text \<open>The \<^verbatim>\<open>while (current)\<close> loop that walks the predecessor links.\<close>

partial_function (option) reconstruct ::
    "(string \<rightharpoonup> jsval) \<Rightarrow> jsval \<Rightarrow> string list \<Rightarrow> string list option" where
  "reconstruct prev current p =
     (case current of
        Str c \<Rightarrow> if c = [] then Some p else reconstruct prev (prop_get prev c) (c # p)
      | _ \<Rightarrow> Some p)"

declare reconstruct.simps [code]

definition dijkstra :: "graph \<Rightarrow> string \<Rightarrow> string \<Rightarrow> result option" where
  "dijkstra graph startNode endNode =
     (case main_loop graph endNode (initialize graph startNode) of
        None \<Rightarrow> None
      | Some st \<Rightarrow>
          (case reconstruct (previous st) (Str endNode) [] of
             None \<Rightarrow> None
           | Some p \<Rightarrow> Some \<lparr>path = p, distance = distances st endNode\<rparr>))"

section \<open>The handlers (source lines 105 to 149 and the inputs' \<^verbatim>\<open>onChange\<close>)\<close>

definition ds_get :: "node list \<Rightarrow> string \<Rightarrow> node option" where
  "ds_get items i = find (\<lambda>n. node_id n = i) items"

definition addNode :: "state \<Rightarrow> state" where
  "addNode s =
     (if newNode s \<noteq> [] \<and> ds_get (nodes s) (newNode s) = None then
        s\<lparr>nodes := nodes s @ [\<lparr>node_id = newNode s, node_label = newNode s\<rparr>],
          newNode := []\<rparr>
      else s)"

fun truthy_weight :: "weight_field \<Rightarrow> bool" where
  "truthy_weight One = True"
| "truthy_weight (Text t) = (t \<noteq> [])"

fun weight_toString :: "weight_field \<Rightarrow> string" where
  "weight_toString One = ''1''"
| "weight_toString (Text t) = t"

fun weight_parseFloat :: "weight_field \<Rightarrow> number" where
  "weight_parseFloat One = Num 1"
| "weight_parseFloat (Text t) = parseFloat t"

definition addEdge :: "state \<Rightarrow> state" where
  "addEdge s =
     (let f = from_field (newEdge s); t = to_field (newEdge s); w = weight_field (newEdge s)
      in if f \<noteq> [] \<and> t \<noteq> [] \<and> truthy_weight w \<and>
            ds_get (nodes s) f \<noteq> None \<and> ds_get (nodes s) t \<noteq> None then
           s\<lparr>edges := edges s @
                [\<lparr>edge_from = f, edge_to = t, edge_label = weight_toString w,
                  edge_weight = weight_parseFloat w\<rparr>],
             newEdge := \<lparr>from_field = [], to_field = [], weight_field = One\<rparr>\<rparr>
         else s)"

definition getSnapshot :: "state \<Rightarrow> graph" where
  "getSnapshot s = \<lparr>nodes = nodes s, edges = edges s\<rparr>"

definition findShortestPath :: "state \<Rightarrow> state option" where
  "findShortestPath s =
     (if from_field (newEdge s) \<noteq> [] \<and> to_field (newEdge s) \<noteq> [] then
        (case dijkstra (getSnapshot s) (from_field (newEdge s)) (to_field (newEdge s)) of
           None \<Rightarrow> None
         | Some r \<Rightarrow> Some (s\<lparr>shortestPath := Result r\<rparr>))
      else Some s)"

definition clearNetwork :: "state \<Rightarrow> state" where
  "clearNetwork s = s\<lparr>nodes := [], edges := [], shortestPath := EmptyArray\<rparr>"

text \<open>The \<^verbatim>\<open>onChange\<close> handlers of the four inputs.\<close>

definition changeNode :: "string \<Rightarrow> state \<Rightarrow> state" where
  "changeNode v s = s\<lparr>newNode := toUpperCase v\<rparr>"

definition changeFrom :: "string \<Rightarrow> state \<Rightarrow> state" where
  "changeFrom v s = s\<lparr>newEdge := (newEdge s)\<lparr>from_field := toUpperCase v\<rparr>\<rparr>"

definition changeTo :: "string \<Rightarrow> state \<Rightarrow> state" where
  "changeTo v s = s\<lparr>newEdge := (newEdge s)\<lparr>to_field := toUpperCase v\<rparr>\<rparr>"

definition changeWeight :: "string \<Rightarrow> state \<Rightarrow> state" where
  "changeWeight v s = s\<lparr>newEdge := (newEdge s)\<lparr>weight_field := Text v\<rparr>\<rparr>"

section \<open>Vocabulary of the claims and invariants of the algorithm\<close>

text \<open>The ids of the nodes of a graph.\<close>

definition node_ids :: "graph \<Rightarrow> string set" where
  "node_ids g = node_id ` set (nodes g)"

text \<open>The operation \<^verbatim>\<open>addNode(id)\<close> of the specification: \<^verbatim>\<open>addNode\<close> run with \<open>id\<close> in the
  text field.  Nothing is normalised here; the input handler \<open>changeNode\<close> is a separate step.\<close>

definition addNode_call :: "string \<Rightarrow> state \<Rightarrow> state" where
  "addNode_call x s = addNode (s\<lparr>newNode := x\<rparr>)"

text \<open>The operation \<^verbatim>\<open>addEdge(from, to, weight)\<close>: \<^verbatim>\<open>addEdge\<close> run with the three fields set.\<close>

definition addEdge_call :: "string \<Rightarrow> string \<Rightarrow> weight_field \<Rightarrow> state \<Rightarrow> state" where
  "addEdge_call f t w s = addEdge (s\<lparr>newEdge := \<lparr>from_field = f, to_field = t, weight_field = w\<rparr>\<rparr>)"

text \<open>The states the component reaches from its initial state through its handlers.  A
  query that does not return reaches no state.\<close>

inductive reachable :: "state \<Rightarrow> bool" where
  r_initial: "reachable initial"
| r_changeNode: "reachable s \<Longrightarrow> reachable (changeNode v s)"
| r_changeFrom: "reachable s \<Longrightarrow> reachable (changeFrom v s)"
| r_changeTo: "reachable s \<Longrightarrow> reachable (changeTo v s)"
| r_changeWeight: "reachable s \<Longrightarrow> reachable (changeWeight v s)"
| r_addNode: "reachable s \<Longrightarrow> reachable (addNode s)"
| r_addEdge: "reachable s \<Longrightarrow> reachable (addEdge s)"
| r_clearNetwork: "reachable s \<Longrightarrow> reachable (clearNetwork s)"
| r_findShortestPath: "reachable s \<Longrightarrow> findShortestPath s = Some s' \<Longrightarrow> reachable s'"

text \<open>Referential integrity: both endpoints of every edge are nodes.\<close>

definition edges_reference_nodes :: "graph \<Rightarrow> bool" where
  "edges_reference_nodes g =
     (\<forall>e \<in> set (edges g). edge_from e \<in> node_ids g \<and> edge_to e \<in> node_ids g)"

text \<open>What every reachable state satisfies: ids are unique, non-empty and upper-case, the
  text field is upper-case, and edges join nodes.\<close>

definition store_inv :: "state \<Rightarrow> bool" where
  "store_inv s =
     (distinct (map node_id (nodes s)) \<and> [] \<notin> node_id ` set (nodes s) \<and>
      (\<forall>n \<in> set (nodes s). toUpperCase (node_id n) = node_id n) \<and>
      toUpperCase (newNode s) = newNode s \<and>
      (\<forall>e \<in> set (edges s). edge_from e \<in> node_id ` set (nodes s) \<and> edge_to e \<in> node_id ` set (nodes s)))"





text \<open>The input constraint of the specification on a snapshot: unique, non-empty node ids
  and edges that join nodes.\<close>

definition valid_snapshot :: "graph \<Rightarrow> bool" where
  "valid_snapshot g =
     (distinct (map node_id (nodes g)) \<and> [] \<notin> node_ids g \<and> edges_reference_nodes g)"

text \<open>\<open>chain prev v p\<close>: following the predecessor links from \<open>v\<close> until a falsy value
  visits the nodes of \<open>p\<close> in reverse.\<close>

inductive chain :: "(string \<rightharpoonup> jsval) \<Rightarrow> string \<Rightarrow> string list \<Rightarrow> bool" for prev where
  chain_end: "v \<noteq> [] \<Longrightarrow> (\<forall>u. prop_get prev v \<noteq> Str u) \<Longrightarrow> chain prev v [v]"
| chain_step: "v \<noteq> [] \<Longrightarrow> prop_get prev v = Str u \<Longrightarrow> chain prev u p \<Longrightarrow> chain prev v (p @ [v])"










text \<open>The state with the nodes \<open>A\<close> and \<open>B\<close> and no edge.\<close>

definition two_nodes :: state where
  "two_nodes = addNode_call ''B'' (addNode_call ''A'' initial)"

text \<open>The example of the specification, entered through the handlers: the nodes \<open>A\<close>,
  \<open>B\<close>, \<open>C\<close> and the edges \<open>A-B\<close> and \<open>B-C\<close> of the default weight 1 and \<open>A-C\<close> of
  weight 5.\<close>

definition three_nodes :: state where
  "three_nodes =
     addNode (changeNode ''c'' (addNode (changeNode ''b'' (addNode (changeNode ''a'' initial)))))"

definition two_edges :: state where
  "two_edges =
     addEdge (changeTo ''c'' (changeFrom ''b'' (addEdge (changeTo ''b'' (changeFrom ''a''
       three_nodes)))))"

definition example_state :: state where
  "example_state = addEdge (changeWeight ''5'' (changeTo ''c'' (changeFrom ''a'' two_edges)))"

text \<open>The snapshot of the example state.\<close>

definition example_graph :: graph where
  "example_graph =
     \<lparr>nodes = [\<lparr>node_id = ''A'', node_label = ''A''\<rparr>, \<lparr>node_id = ''B'', node_label = ''B''\<rparr>,
               \<lparr>node_id = ''C'', node_label = ''C''\<rparr>],
      edges = [\<lparr>edge_from = ''A'', edge_to = ''B'', edge_label = ''1'', edge_weight = Num 1\<rparr>,
               \<lparr>edge_from = ''B'', edge_to = ''C'', edge_label = ''1'', edge_weight = Num 1\<rparr>,
               \<lparr>edge_from = ''A'', edge_to = ''C'', edge_label = ''5'', edge_weight = Num 5\<rparr>]\<rparr>"








text \<open>States built by calling the three store operations with arbitrary arguments,
  without going through the inputs' handlers.\<close>

inductive built :: "state \<Rightarrow> bool" where
  b_initial: "built initial"
| b_addNode: "built s \<Longrightarrow> built (addNode_call x s)"
| b_addEdge: "built s \<Longrightarrow> built (addEdge_call f t w s)"
| b_clear: "built s \<Longrightarrow> built (clearNetwork s)"

section \<open>Lemmas\<close>

subsection \<open>The initial state of the algorithm\<close>

lemma ds_get_None: "ds_get ns i = None \<longleftrightarrow> i \<notin> node_id ` set ns"
  by (auto simp: ds_get_def find_None_iff)











subsection \<open>The invariant of the store\<close>

lemma toUpperCase_char_idem: "toUpperCase_char (toUpperCase_char c) = toUpperCase_char c"
  by (simp add: toUpperCase_char_def)

lemma toUpperCase_idem: "toUpperCase (toUpperCase s) = toUpperCase s"
  by (simp add: toUpperCase_def toUpperCase_char_idem)

lemma store_inv_initial: "store_inv initial"
  by (simp add: store_inv_def initial_def toUpperCase_def)

lemma store_inv_addNode: "store_inv s \<Longrightarrow> store_inv (addNode s)"
  by (auto simp: store_inv_def addNode_def ds_get_None toUpperCase_def)

lemma store_inv_addEdge: "store_inv s \<Longrightarrow> store_inv (addEdge s)"
  by (auto simp: store_inv_def addEdge_def Let_def ds_get_None)

lemma store_inv_clearNetwork: "store_inv s \<Longrightarrow> store_inv (clearNetwork s)"
  by (simp add: store_inv_def clearNetwork_def)

lemma store_inv_change:
  "store_inv s \<Longrightarrow> store_inv (changeNode v s)"
  "store_inv s \<Longrightarrow> store_inv (changeFrom v s)"
  "store_inv s \<Longrightarrow> store_inv (changeTo v s)"
  "store_inv s \<Longrightarrow> store_inv (changeWeight v s)"
  by (simp_all add: store_inv_def changeNode_def changeFrom_def changeTo_def changeWeight_def
      toUpperCase_idem)

lemma store_inv_findShortestPath: "store_inv s \<Longrightarrow> findShortestPath s = Some s' \<Longrightarrow> store_inv s'"
  by (auto simp: store_inv_def findShortestPath_def split: if_splits option.splits)

lemma reachable_store_inv: "reachable s \<Longrightarrow> store_inv s"
  by (induction rule: reachable.induct)
     (simp_all add: store_inv_initial store_inv_addNode store_inv_addEdge store_inv_clearNetwork
        store_inv_change store_inv_findShortestPath)




lemma addNode_twice_nodes:
  "nodes (addNode_call x (addNode_call x s)) = nodes (addNode_call x s)"
  by (auto simp: addNode_call_def addNode_def ds_get_None)

lemma addNode_edges: "edges (addNode s) = edges s"
  by (simp add: addNode_def)

subsection \<open>The stable sort puts a least entry first\<close>








subsection \<open>Predecessor chains and walks\<close>




lemma chain_last: "chain prev v p \<Longrightarrow> p \<noteq> [] \<and> last p = v"
  by (induction rule: chain.induct) auto





subsection \<open>One relaxation\<close>











subsection \<open>A source without incident edges\<close>






subsection \<open>When addEdge inserts\<close>

lemma addEdge_call_reject:
  assumes "f = [] \<or> t = [] \<or> w = Text [] \<or> f \<notin> node_ids (getSnapshot s) \<or> t \<notin> node_ids (getSnapshot s)"
  shows "nodes (addEdge_call f t w s) = nodes s \<and> edges (addEdge_call f t w s) = edges s"
  using assms
  by (auto simp: addEdge_call_def addEdge_def Let_def ds_get_None node_ids_def getSnapshot_def)

lemma truthy_weight_iff: "truthy_weight w \<longleftrightarrow> w \<noteq> Text []"
  by (cases w) simp_all

lemma addEdge_call_accept:
  assumes "f \<noteq> []" "t \<noteq> []" "w \<noteq> Text []" "f \<in> node_ids (getSnapshot s)" "t \<in> node_ids (getSnapshot s)"
  shows "nodes (addEdge_call f t w s) = nodes s \<and>
     edges (addEdge_call f t w s) =
       edges s @ [\<lparr>edge_from = f, edge_to = t, edge_label = weight_toString w,
                   edge_weight = weight_parseFloat w\<rparr>]"
  using assms
  by (auto simp: addEdge_call_def addEdge_def Let_def ds_get_None node_ids_def getSnapshot_def
      truthy_weight_iff)

lemma parseFloat_minus5: "parseFloat ''-5'' = Num (- 5)"
  by (simp add: parseFloat_def isWhiteSpace_def isDigit_def digitsValue_def digitValue_def Let_def
      pow10_def exponentPart_def)

lemma parseFloat_0: "parseFloat ''0'' = Num 0"
  by (simp add: parseFloat_def isWhiteSpace_def isDigit_def digitsValue_def digitValue_def Let_def
      pow10_def exponentPart_def)

lemma two_nodes_eq: "two_nodes = initial\<lparr>nodes := [\<lparr>node_id = ''A'', node_label = ''A''\<rparr>, \<lparr>node_id = ''B'', node_label = ''B''\<rparr>]\<rparr>"
  by (simp add: two_nodes_def addNode_call_def addNode_def initial_def ds_get_def)

subsection \<open>The example of the specification\<close>

lemma parseFloat_5: "parseFloat ''5'' = Num 5"
  by (simp add: parseFloat_def isWhiteSpace_def isDigit_def digitsValue_def digitValue_def Let_def
      pow10_def exponentPart_def)

lemma toUpperCase_abc:
  "toUpperCase ''a'' = ''A''" "toUpperCase ''b'' = ''B''" "toUpperCase ''c'' = ''C''"
  by (simp_all add: toUpperCase_def toUpperCase_char_def)

lemma example_snapshot: "getSnapshot example_state = example_graph"
  by (simp add: example_state_def two_edges_def three_nodes_def example_graph_def
      getSnapshot_def initial_def
      changeNode_def changeFrom_def changeTo_def changeWeight_def addNode_def addEdge_def
      Let_def ds_get_def toUpperCase_abc parseFloat_5)

lemma example_reachable: "reachable example_state"
  unfolding example_state_def two_edges_def three_nodes_def by (intro reachable.intros)

lemma example_node_ids: "node_ids example_graph = {''A'', ''B'', ''C''}"
  by (auto simp: node_ids_def example_graph_def)


subsection \<open>Expanding the extracted node\<close>








subsection \<open>Termination and correctness of the main loop\<close>







subsection \<open>The result of dijkstra on valid snapshots\<close>









subsection \<open>The cost of the returned path\<close>








lemma valid_snapshotD:
  "valid_snapshot g \<Longrightarrow> edges_reference_nodes g" "valid_snapshot g \<Longrightarrow> [] \<notin> node_ids g"
  by (simp_all add: valid_snapshot_def)










subsection \<open>Unreachable nodes are never written, on any graph\<close>






lemma reachable_valid_snapshot: "reachable s \<Longrightarrow> valid_snapshot (getSnapshot s)"
  using reachable_store_inv[of s]
  by (simp add: store_inv_def valid_snapshot_def edges_reference_nodes_def node_ids_def
      getSnapshot_def)




subsection \<open>Snapshots of the store are valid\<close>

lemma valid_snapshot_initial: "valid_snapshot (getSnapshot initial)"
  by (simp add: valid_snapshot_def getSnapshot_def initial_def node_ids_def
      edges_reference_nodes_def)

lemma valid_snapshot_addNode_call:
  "valid_snapshot (getSnapshot s) \<Longrightarrow> valid_snapshot (getSnapshot (addNode_call x s))"
  by (auto simp: valid_snapshot_def getSnapshot_def node_ids_def edges_reference_nodes_def
      addNode_call_def addNode_def ds_get_None)

lemma valid_snapshot_addEdge_call:
  "valid_snapshot (getSnapshot s) \<Longrightarrow> valid_snapshot (getSnapshot (addEdge_call f t w s))"
  by (auto simp: valid_snapshot_def getSnapshot_def node_ids_def edges_reference_nodes_def
      addEdge_call_def addEdge_def Let_def ds_get_None)

lemma valid_snapshot_clearNetwork: "valid_snapshot (getSnapshot (clearNetwork s))"
  by (simp add: valid_snapshot_def getSnapshot_def node_ids_def edges_reference_nodes_def
      clearNetwork_def)

lemma built_valid_snapshot: "built s \<Longrightarrow> valid_snapshot (getSnapshot s)"
  by (induction rule: built.induct)
     (simp_all add: valid_snapshot_initial valid_snapshot_addNode_call
        valid_snapshot_addEdge_call valid_snapshot_clearNetwork)

lemma built_example:
  "built (addEdge_call ''a'' ''b'' (Text ''2'') (addNode_call ''b'' (addNode_call ''a'' initial)))"
  by (intro built.intros)

section \<open>The claims\<close>



text \<open>
  Claim C2, as amended.  \<^verbatim>\<open>addEdge\<close> leaves the node and edge collections unchanged
  exactly when \<open>from\<close> or \<open>to\<close> is empty, the weight field is the empty text (what a
  number input reports for an entry that is not a number), or an endpoint is not a node.
  For every other input the edge is appended with the weight \<^verbatim>\<open>parseFloat\<close> reads from
  the field; the sign of the weight is never examined, so the texts \<^verbatim>\<open>0\<close> and \<^verbatim>\<open>-5\<close> are
  both accepted.
\<close>

theorem addEdge_noop_iff_invalid:
  "(f = [] \<or> t = [] \<or> w = Text [] \<or> f \<notin> node_ids (getSnapshot s) \<or> t \<notin> node_ids (getSnapshot s) \<longrightarrow>
      nodes (addEdge_call f t w s) = nodes s \<and> edges (addEdge_call f t w s) = edges s) \<and>
   (f \<noteq> [] \<and> t \<noteq> [] \<and> w \<noteq> Text [] \<and> f \<in> node_ids (getSnapshot s) \<and> t \<in> node_ids (getSnapshot s) \<longrightarrow>
      nodes (addEdge_call f t w s) = nodes s \<and>
      edges (addEdge_call f t w s) =
        edges s @ [\<lparr>edge_from = f, edge_to = t, edge_label = weight_toString w,
                    edge_weight = weight_parseFloat w\<rparr>])"
  using addEdge_call_reject[of f t w s] addEdge_call_accept[of f t w s] by blast

theorem addEdge_noop_iff_invalid_witness:
  "''A'' \<in> node_ids (getSnapshot two_nodes) \<and> ''B'' \<in> node_ids (getSnapshot two_nodes) \<and>
   edges (addEdge_call ''A'' ''B'' (Text ''0'') two_nodes) =
     [\<lparr>edge_from = ''A'', edge_to = ''B'', edge_label = ''0'', edge_weight = Num 0\<rparr>] \<and>
   ''Z'' \<notin> node_ids (getSnapshot two_nodes) \<and>
   edges (addEdge_call ''A'' ''Z'' (Text ''0'') two_nodes) = [] \<and>
   edges (addEdge_call ''A'' ''B'' (Text []) two_nodes) = []"
  using addEdge_noop_iff_invalid[of "''A''" "''B''" "Text ''0''" two_nodes]
    addEdge_noop_iff_invalid[of "''A''" "''Z''" "Text ''0''" two_nodes]
    addEdge_noop_iff_invalid[of "''A''" "''B''" "Text []" two_nodes]
  by (simp add: two_nodes_eq node_ids_def getSnapshot_def initial_def parseFloat_0)

text \<open>
  Claim C2 as stated fails: with the nodes \<open>A\<close> and \<open>B\<close> present, \<^verbatim>\<open>addEdge\<close> with the
  weight text \<^verbatim>\<open>-5\<close> inserts an edge of weight \<open>-5\<close>.
\<close>

theorem addEdge_negative_weight_inserted:
  "edges two_nodes = [] \<and>
   edges (addEdge_call ''A'' ''B'' (Text ''-5'') two_nodes) =
     [\<lparr>edge_from = ''A'', edge_to = ''B'', edge_label = ''-5'', edge_weight = Num (- 5)\<rparr>]"
  by (simp add: two_nodes_eq addEdge_call_def addEdge_def Let_def initial_def ds_get_def
      parseFloat_minus5)













text \<open>
  Claim C8.  In every state reached through the handlers, and in every state built by
  calling \<^verbatim>\<open>addNode\<close>, \<^verbatim>\<open>addEdge\<close> and \<^verbatim>\<open>clearNetwork\<close> with arbitrary arguments, both
  endpoints of every stored edge are nodes; and \<^verbatim>\<open>addEdge\<close> changes neither collection
  when an endpoint is not a node.
\<close>

theorem edges_reference_existing_nodes:
  "(reachable s \<or> built s \<longrightarrow> edges_reference_nodes (getSnapshot s)) \<and>
   (f \<notin> node_ids (getSnapshot s) \<or> t \<notin> node_ids (getSnapshot s) \<longrightarrow>
      nodes (addEdge_call f t w s) = nodes s \<and> edges (addEdge_call f t w s) = edges s)"
proof (rule conjI; rule impI)
  assume "reachable s \<or> built s"
  then have "valid_snapshot (getSnapshot s)"
    using reachable_valid_snapshot built_valid_snapshot by blast
  then show "edges_reference_nodes (getSnapshot s)" by (rule valid_snapshotD(1))
next
  assume "f \<notin> node_ids (getSnapshot s) \<or> t \<notin> node_ids (getSnapshot s)"
  then show "nodes (addEdge_call f t w s) = nodes s \<and> edges (addEdge_call f t w s) = edges s"
    using addEdge_call_reject[of f t w s] by blast
qed

theorem edges_reference_existing_nodes_witness:
  "reachable example_state \<and> edges_reference_nodes (getSnapshot example_state) \<and>
   built (addEdge_call ''a'' ''b'' (Text ''2'') (addNode_call ''b'' (addNode_call ''a'' initial))) \<and>
   edges_reference_nodes (getSnapshot
     (addEdge_call ''a'' ''b'' (Text ''2'') (addNode_call ''b'' (addNode_call ''a'' initial)))) \<and>
   ''Z'' \<notin> node_ids (getSnapshot example_state) \<and>
   nodes (addEdge_call ''A'' ''Z'' One example_state) = nodes example_state \<and>
   edges (addEdge_call ''A'' ''Z'' One example_state) = edges example_state"
  using edges_reference_existing_nodes[of example_state "''A''" "''Z''" One] example_reachable
    edges_reference_existing_nodes[of
      "addEdge_call ''a'' ''b'' (Text ''2'') (addNode_call ''b'' (addNode_call ''a'' initial))"]
    built_example
  by (simp add: example_snapshot example_node_ids)

text \<open>
  Claim C9.  Calling \<^verbatim>\<open>addNode\<close> twice with the same id leaves the same nodes and edges as
  calling it once: whether the id is put into the field directly, typed through the input
  handler each time, or the button is pressed twice in a row.
\<close>

theorem addNode_idempotent:
  "nodes (addNode_call x (addNode_call x s)) = nodes (addNode_call x s) \<and>
   edges (addNode_call x (addNode_call x s)) = edges (addNode_call x s) \<and>
   nodes (addNode (changeNode x (addNode (changeNode x s)))) = nodes (addNode (changeNode x s)) \<and>
   edges (addNode (changeNode x (addNode (changeNode x s)))) = edges (addNode (changeNode x s)) \<and>
   nodes (addNode (addNode s)) = nodes (addNode s) \<and>
   edges (addNode (addNode s)) = edges (addNode s)"
  by (auto simp: addNode_call_def addNode_def ds_get_None changeNode_def)

theorem addNode_idempotent_witness:
  "map node_id (nodes (addNode_call ''A'' (addNode_call ''A'' initial))) = [''A''] \<and>
   edges (addNode_call ''A'' (addNode_call ''A'' initial)) = []"
  using addNode_idempotent[of "''A''" initial]
  by (simp add: addNode_call_def addNode_def initial_def ds_get_def)




end
